theory Spec2Isabelle
  imports Main "HOL-Library.Word"
begin

section \<open>Field elements, addresses and errors\<close>

text \<open>
  Noir's native \<open>Field\<close> is the scalar field of BN254: the integers modulo the prime
  below. A \<open>Field\<close> value is modelled as a natural number and every addition of the
  source is written with its reduction modulo the prime.
\<close>

type_synonym Field = nat

definition field_modulus :: nat where
  "field_modulus = 21888242871839275222246405745257275088548364400416034343698204186575808495617"

definition field_add :: "Field \<Rightarrow> Field \<Rightarrow> Field" where
  "field_add a b = (a + b) mod field_modulus"

text \<open>\<open>AztecAddress\<close> is a struct around one \<open>Field\<close>; \<open>to_field\<close> reads it and
  \<open>eq\<close> is equality of the wrapped value.\<close>

datatype AztecAddress = AztecAddress (to_field: Field)

text \<open>
  The failures of the contract. \<open>VotingEnded\<close> is the assertion
  \<^verbatim>\<open>"Vote has ended"\<close>, \<open>Unauthorized\<close> is \<^verbatim>\<open>"Only admin can end vote"\<close>,
  \<open>NotInternal\<close> is the caller check that the attribute \<^verbatim>\<open>#[internal]\<close> puts in
  front of \<open>add_to_tally_public\<close>, and \<open>DuplicateVote\<close> is the refusal of a nullifier
  that is already in the nullifier set.
\<close>

datatype error = Unauthorized | VotingEnded | DuplicateVote | NotInternal

section \<open>Public storage\<close>

text \<open>
  The \<^verbatim>\<open>Storage\<close> struct of \<^verbatim>\<open>main.nr\<close>. The \<open>tally\<close> map holds the slots that
  have been written; a slot that was never written reads as zero.
\<close>

record Storage =
  admin :: AztecAddress
  tally :: "Field \<rightharpoonup> Field"
  vote_ended :: bool
  active_at_block :: "32 word"

text \<open>
  A public function runs on the storage and either returns a value or stops at a failed
  assertion; the storage it has reached is returned in both cases.
\<close>

type_synonym 'a pub = "Storage \<Rightarrow> (error + 'a) \<times> Storage"

definition pub_bind :: "'a pub \<Rightarrow> ('a \<Rightarrow> 'b pub) \<Rightarrow> 'b pub" where
  "pub_bind m f s = (case m s of (Inl e, s') \<Rightarrow> (Inl e, s') | (Inr x, s') \<Rightarrow> f x s')"

definition assert_that :: "bool \<Rightarrow> error \<Rightarrow> unit pub" where
  "assert_that b e s = (if b then Inr () else Inl e, s)"

definition admin_read :: "AztecAddress pub" where
  "admin_read s = (Inr (admin s), s)"

definition admin_write :: "AztecAddress \<Rightarrow> unit pub" where
  "admin_write a s = (Inr (), s\<lparr>admin := a\<rparr>)"

definition vote_ended_read :: "bool pub" where
  "vote_ended_read s = (Inr (vote_ended s), s)"

definition vote_ended_write :: "bool \<Rightarrow> unit pub" where
  "vote_ended_write b s = (Inr (), s\<lparr>vote_ended := b\<rparr>)"

definition active_at_block_initialize :: "32 word \<Rightarrow> unit pub" where
  "active_at_block_initialize n s = (Inr (), s\<lparr>active_at_block := n\<rparr>)"

definition active_at_block_read :: "32 word pub" where
  "active_at_block_read s = (Inr (active_at_block s), s)"

definition slot_value :: "Storage \<Rightarrow> Field \<Rightarrow> Field" where
  "slot_value s candidate = (case tally s candidate of None \<Rightarrow> 0 | Some v \<Rightarrow> v)"

definition tally_at_read :: "Field \<Rightarrow> Field pub" where
  "tally_at_read candidate s = (Inr (slot_value s candidate), s)"

definition tally_at_write :: "Field \<Rightarrow> Field \<Rightarrow> unit pub" where
  "tally_at_write candidate v s = (Inr (), s\<lparr>tally := (tally s)(candidate \<mapsto> v)\<rparr>)"

section \<open>The contract's public and utility functions\<close>

record CallContext =
  msg_sender :: AztecAddress
  this_address :: AztecAddress

record PublicContext = CallContext +
  block_number :: "32 word"

definition constructor :: "PublicContext \<Rightarrow> AztecAddress \<Rightarrow> unit pub" where
  "constructor ctx admin_arg =
     pub_bind (admin_write admin_arg) (\<lambda>_.
     pub_bind (vote_ended_write False) (\<lambda>_.
     active_at_block_initialize (block_number ctx)))"

definition add_to_tally_public :: "PublicContext \<Rightarrow> Field \<Rightarrow> unit pub" where
  "add_to_tally_public ctx candidate =
     pub_bind (assert_that (msg_sender ctx = this_address ctx) NotInternal) (\<lambda>_.
     pub_bind vote_ended_read (\<lambda>ended.
     pub_bind (assert_that (ended = False) VotingEnded) (\<lambda>_.
     pub_bind (tally_at_read candidate) (\<lambda>t.
     (let new_tally = field_add t 1 in tally_at_write candidate new_tally)))))"

definition end_vote :: "PublicContext \<Rightarrow> unit pub" where
  "end_vote ctx =
     pub_bind admin_read (\<lambda>a.
     pub_bind (assert_that (a = msg_sender ctx) Unauthorized) (\<lambda>_.
     vote_ended_write True))"

definition get_vote :: "Field \<Rightarrow> Field pub" where
  "get_vote candidate = tally_at_read candidate"

definition get_vote_ended :: "bool pub" where
  "get_vote_ended = vote_ended_read"

definition get_admin :: "AztecAddress pub" where
  "get_admin = admin_read"

definition get_active_at_block :: "32 word pub" where
  "get_active_at_block = active_at_block_read"

section \<open>The private function \<open>cast_vote\<close>\<close>

text \<open>
  The key oracles and the hash that \<open>cast_vote\<close> calls are not part of the contract;
  they are parameters: \<open>npk_m_hash a\<close> stands for
  \<^verbatim>\<open>get_public_keys(a).npk_m.hash()\<close>, \<open>nsk_app app h\<close> for the app-siloed
  nullifier secret key that \<^verbatim>\<open>context.request_nsk_app(h)\<close> returns inside the contract
  at address \<open>app\<close>, and \<open>pedersen_hash\<close> for \<^verbatim>\<open>std::hash::pedersen_hash\<close>.
\<close>

record KeyOracle =
  npk_m_hash :: "AztecAddress \<Rightarrow> Field"
  nsk_app :: "AztecAddress \<Rightarrow> Field \<Rightarrow> Field"
  pedersen_hash :: "Field list \<Rightarrow> Field"

datatype PublicFn = Fn_add_to_tally_public Field

record PublicCallRequest =
  req_msg_sender :: AztecAddress
  req_contract_address :: AztecAddress
  req_fn :: PublicFn

text \<open>The private context collects the side effects of a private call: the nullifiers
  it pushed and the public calls it enqueued, both in order.\<close>

record PrivateContext = CallContext +
  new_nullifiers :: "Field list"
  public_call_requests :: "PublicCallRequest list"

definition request_nsk_app :: "'a KeyOracle_scheme \<Rightarrow> PrivateContext \<Rightarrow> Field \<Rightarrow> Field" where
  "request_nsk_app orc ctx h = nsk_app orc (this_address ctx) h"

definition push_nullifier :: "Field \<Rightarrow> PrivateContext \<Rightarrow> PrivateContext" where
  "push_nullifier n ctx = ctx\<lparr>new_nullifiers := new_nullifiers ctx @ [n]\<rparr>"

definition enqueue :: "PublicCallRequest \<Rightarrow> PrivateContext \<Rightarrow> PrivateContext" where
  "enqueue r ctx = ctx\<lparr>public_call_requests := public_call_requests ctx @ [r]\<rparr>"

definition cast_vote :: "'a KeyOracle_scheme \<Rightarrow> PrivateContext \<Rightarrow> Field \<Rightarrow> PrivateContext" where
  "cast_vote orc ctx candidate =
     (let msg_sender_npk_m_hash = npk_m_hash orc (msg_sender ctx);
          secret = request_nsk_app orc ctx msg_sender_npk_m_hash;
          nullifier = pedersen_hash orc [to_field (msg_sender ctx), secret];
          ctx1 = push_nullifier nullifier ctx
      in enqueue \<lparr>req_msg_sender = this_address ctx1,
                  req_contract_address = this_address ctx1,
                  req_fn = Fn_add_to_tally_public candidate\<rparr> ctx1)"

section \<open>Transactions on the ledger\<close>

text \<open>
  The ledger the ballot runs on: the global nullifier set and the ballot's public
  storage. \<open>Host\<close> adds to the key oracles the address the ballot is deployed at and the
  block number handed to public calls.
\<close>

record World =
  nullifier_set :: "Field set"
  storage :: Storage

record Host = KeyOracle +
  ballot_address :: AztecAddress
  block_height :: "32 word"

definition private_ctx :: "Host \<Rightarrow> AztecAddress \<Rightarrow> PrivateContext" where
  "private_ctx h caller =
     \<lparr>msg_sender = caller, this_address = ballot_address h,
      new_nullifiers = [], public_call_requests = []\<rparr>"

definition public_ctx :: "Host \<Rightarrow> AztecAddress \<Rightarrow> PublicContext" where
  "public_ctx h caller =
     \<lparr>msg_sender = caller, this_address = ballot_address h, block_number = block_height h\<rparr>"

text \<open>
  Modelled from the spec: the nullifier set of the host ledger, which is not part of the
  repository. Section 6: \<^verbatim>\<open>insert_if_absent(value) -> success|already_exists\<close>;
  section 4.3: a nullifier that already exists fails the transaction with
  \<open>DuplicateVote\<close>. \<open>insert_nullifiers\<close> inserts the nullifiers of a private phase
  in the order they were pushed.
\<close>

definition insert_if_absent :: "Field \<Rightarrow> Field set \<Rightarrow> error + Field set" where
  "insert_if_absent n ns = (if n \<in> ns then Inl DuplicateVote else Inr (insert n ns))"

fun insert_nullifiers :: "Field list \<Rightarrow> Field set \<Rightarrow> error + Field set" where
  "insert_nullifiers [] ns = Inr ns"
| "insert_nullifiers (n # rest) ns =
     (case insert_if_absent n ns of Inl e \<Rightarrow> Inl e | Inr ns' \<Rightarrow> insert_nullifiers rest ns')"

text \<open>
  Modelled from the spec: the public phase of the transaction host. Section 5: the
  public phase applies the staged calls against the public storage. \<open>run_request\<close>
  runs one staged call with the sender and the target that its request records, and
  \<open>run_requests\<close> runs them in order and stops at the first failure.
\<close>

definition run_request :: "Host \<Rightarrow> PublicCallRequest \<Rightarrow> unit pub" where
  "run_request h r =
     (case req_fn r of
        Fn_add_to_tally_public candidate \<Rightarrow>
          add_to_tally_public
            \<lparr>msg_sender = req_msg_sender r, this_address = req_contract_address r,
             block_number = block_height h\<rparr> candidate)"

fun run_requests :: "Host \<Rightarrow> PublicCallRequest list \<Rightarrow> unit pub" where
  "run_requests h [] s = (Inr (), s)"
| "run_requests h (r # rs) s = pub_bind (run_request h r) (\<lambda>_. run_requests h rs) s"

text \<open>
  Modelled from the spec: the transaction host, which is not part of the repository.
  Sections 4.3, 5 and 7: a transaction runs its private phase, inserts the nullifiers of
  that phase into the nullifier set, then applies the staged public calls; the nullifier
  insertion and the public writes commit together, and when any of them fails the
  transaction aborts and all of its effects are discarded.
\<close>

definition cast_vote_tx :: "Host \<Rightarrow> AztecAddress \<Rightarrow> Field \<Rightarrow> World \<Rightarrow> error option \<times> World" where
  "cast_vote_tx h voter candidate w =
     (let ctx = cast_vote h (private_ctx h voter) candidate in
      case insert_nullifiers (new_nullifiers ctx) (nullifier_set w) of
        Inl e \<Rightarrow> (Some e, w)
      | Inr ns' \<Rightarrow>
          (case run_requests h (public_call_requests ctx) (storage w) of
             (Inl e, _) \<Rightarrow> (Some e, w)
           | (Inr _, s') \<Rightarrow> (None, \<lparr>nullifier_set = ns', storage = s'\<rparr>)))"

text \<open>
  Modelled from the spec: a transaction that is one direct call. Section 7: a failure
  is fatal to the enclosing transaction and all of its effects are discarded. The same
  wrapper runs the utility functions and keeps the storage they return, so that a write
  by a view accessor would show in the ledger.
\<close>

definition commit_public :: "'a pub \<Rightarrow> World \<Rightarrow> error option \<times> World" where
  "commit_public f w =
     (case f (storage w) of
        (Inl e, _) \<Rightarrow> (Some e, w)
      | (Inr _, s') \<Rightarrow> (None, w\<lparr>storage := s'\<rparr>))"

text \<open>
  The entry points of the deployed ballot (section 6 of the spec), each with its caller
  where the function reads it; \<open>Add_to_tally_public\<close> is an attempt to call the
  internal function directly. \<open>step\<close> runs one of them as a transaction, \<open>run\<close> a
  sequence of them, and \<open>states\<close> lists the ledgers the sequence goes through.
\<close>

datatype Tx =
    Cast_vote AztecAddress Field
  | End_vote AztecAddress
  | Add_to_tally_public AztecAddress Field
  | Get_vote Field
  | Get_vote_ended
  | Get_admin
  | Get_active_at_block

fun step :: "Host \<Rightarrow> Tx \<Rightarrow> World \<Rightarrow> error option \<times> World" where
  "step h (Cast_vote voter candidate) w = cast_vote_tx h voter candidate w"
| "step h (End_vote caller) w = commit_public (end_vote (public_ctx h caller)) w"
| "step h (Add_to_tally_public caller candidate) w =
     commit_public (add_to_tally_public (public_ctx h caller) candidate) w"
| "step h (Get_vote candidate) w = commit_public (get_vote candidate) w"
| "step h Get_vote_ended w = commit_public get_vote_ended w"
| "step h Get_admin w = commit_public get_admin w"
| "step h Get_active_at_block w = commit_public get_active_at_block w"

fun run :: "Host \<Rightarrow> Tx list \<Rightarrow> World \<Rightarrow> World" where
  "run h [] w = w"
| "run h (t # ts) w = run h ts (snd (step h t w))"

fun states :: "Host \<Rightarrow> Tx list \<Rightarrow> World \<Rightarrow> World list" where
  "states h [] w = [w]"
| "states h (t # ts) w = w # states h ts (snd (step h t w))"

text \<open>The number of places where a sequence of flags goes from false to true.\<close>

fun rising_edges :: "bool list \<Rightarrow> nat" where
  "rising_edges (a # b # bs) = (if \<not> a \<and> b then 1 else 0) + rising_edges (b # bs)"
| "rising_edges bs = 0"

text \<open>
  Modelled from the spec: deployment. The attribute \<^verbatim>\<open>#[initializer]\<close> belongs to the
  framework; section 4.1 says the constructor runs exactly once, before any other entry
  point is reachable. The storage it starts from has no slot written.
\<close>

definition zero_storage :: Storage where
  "zero_storage =
     \<lparr>admin = AztecAddress 0, tally = Map.empty, vote_ended = False, active_at_block = 0\<rparr>"

definition deploy :: "Host \<Rightarrow> AztecAddress \<Rightarrow> AztecAddress \<Rightarrow> Field set \<Rightarrow> World" where
  "deploy h deployer admin_arg ns =
     \<lparr>nullifier_set = ns,
      storage = snd (constructor (public_ctx h deployer) admin_arg zero_storage)\<rparr>"

text \<open>A concrete host, with arithmetic stand-ins for the key oracles and the hash, on
  which the definitions above can be evaluated.\<close>

definition example_host :: Host where
  "example_host =
     \<lparr>npk_m_hash = (\<lambda>a. to_field a + 1), nsk_app = (\<lambda>app k. to_field app + k),
      pedersen_hash = sum_list, ballot_address = AztecAddress 9, block_height = 6\<rparr>"

declare step.simps [simp del]

section \<open>Closed forms of the public functions\<close>

lemma constructor_eq:
  "constructor ctx a s =
     (Inr (), s\<lparr>admin := a, vote_ended := False, active_at_block := block_number ctx\<rparr>)"
  by (simp add: constructor_def pub_bind_def admin_write_def vote_ended_write_def
      active_at_block_initialize_def)

lemma add_to_tally_public_eq:
  "add_to_tally_public ctx c s =
     (if msg_sender ctx \<noteq> this_address ctx then (Inl NotInternal, s)
      else if vote_ended s then (Inl VotingEnded, s)
      else (Inr (), s\<lparr>tally := (tally s)(c \<mapsto> field_add (slot_value s c) 1)\<rparr>))"
  by (simp add: add_to_tally_public_def pub_bind_def assert_that_def vote_ended_read_def
      tally_at_read_def tally_at_write_def)

lemma end_vote_eq:
  "end_vote ctx s =
     (if admin s = msg_sender ctx then (Inr (), s\<lparr>vote_ended := True\<rparr>)
      else (Inl Unauthorized, s))"
  by (simp add: end_vote_def pub_bind_def assert_that_def admin_read_def vote_ended_write_def)

lemma cast_vote_private_ctx:
  "cast_vote h (private_ctx h v) c =
     \<lparr>msg_sender = v, this_address = ballot_address h,
      new_nullifiers =
        [pedersen_hash h [to_field v, nsk_app h (ballot_address h) (npk_m_hash h v)]],
      public_call_requests =
        [\<lparr>req_msg_sender = ballot_address h, req_contract_address = ballot_address h,
          req_fn = Fn_add_to_tally_public c\<rparr>]\<rparr>"
  by (simp add: cast_vote_def private_ctx_def request_nsk_app_def push_nullifier_def
      enqueue_def Let_def)

lemma cast_vote_tx_eq:
  "cast_vote_tx h v c w =
     (if pedersen_hash h [to_field v, nsk_app h (ballot_address h) (npk_m_hash h v)]
           \<in> nullifier_set w
      then (Some DuplicateVote, w)
      else if vote_ended (storage w) then (Some VotingEnded, w)
      else (None,
            \<lparr>nullifier_set =
               insert (pedersen_hash h [to_field v, nsk_app h (ballot_address h) (npk_m_hash h v)])
                 (nullifier_set w),
             storage = (storage w)\<lparr>tally :=
               (tally (storage w))(c \<mapsto> field_add (slot_value (storage w) c) 1)\<rparr>\<rparr>))"
  by (simp add: cast_vote_tx_def cast_vote_private_ctx insert_if_absent_def run_request_def
      pub_bind_def add_to_tally_public_eq Let_def)

lemma step_end_vote_eq:
  "step h (End_vote a) w =
     (if admin (storage w) = a
      then (None, w\<lparr>storage := (storage w)\<lparr>vote_ended := True\<rparr>\<rparr>)
      else (Some Unauthorized, w))"
  by (simp add: step.simps commit_public_def end_vote_eq public_ctx_def)

lemma step_add_to_tally_public_eq:
  "step h (Add_to_tally_public a c) w =
     (if a \<noteq> ballot_address h then (Some NotInternal, w)
      else if vote_ended (storage w) then (Some VotingEnded, w)
      else (None, w\<lparr>storage := (storage w)\<lparr>tally :=
               (tally (storage w))(c \<mapsto> field_add (slot_value (storage w) c) 1)\<rparr>\<rparr>))"
  by (simp add: step.simps commit_public_def add_to_tally_public_eq public_ctx_def)

lemma step_views_eq:
  "step h (Get_vote c) w = (None, w)"
  "step h Get_vote_ended w = (None, w)"
  "step h Get_admin w = (None, w)"
  "step h Get_active_at_block w = (None, w)"
  by (simp_all add: step.simps commit_public_def get_vote_def get_vote_ended_def get_admin_def
      get_active_at_block_def tally_at_read_def vote_ended_read_def admin_read_def
      active_at_block_read_def)

lemmas step_eqs = step.simps(1) cast_vote_tx_eq step_end_vote_eq step_add_to_tally_public_eq step_views_eq

lemma slot_value_write:
  "slot_value (s\<lparr>tally := (tally s)(ca \<mapsto> v)\<rparr>) c = (if c = ca then v else slot_value s c)"
  by (simp add: slot_value_def)

lemma slot_value_vote_ended: "slot_value (s\<lparr>vote_ended := b\<rparr>) c = slot_value s c"
  by (simp add: slot_value_def)

lemma field_add_one_below_modulus: "Suc v < field_modulus \<Longrightarrow> field_add v (Suc 0) = Suc v"
  by (simp add: field_add_def)

lemma field_add_zero_one: "field_add 0 (Suc 0) = Suc 0"
  by (simp add: field_add_def field_modulus_def)

section \<open>What one transaction and a sequence of transactions preserve\<close>

lemma step_nullifiers_mono: "nullifier_set w \<subseteq> nullifier_set (snd (step h t w))"
  by (cases t) (auto simp add: step_eqs)

lemma run_nullifiers_mono: "nullifier_set w \<subseteq> nullifier_set (run h ts w)"
proof (induction ts arbitrary: w)
  case Nil
  show ?case by simp
next
  case (Cons t ts)
  have "nullifier_set w \<subseteq> nullifier_set (snd (step h t w))"
    by (rule step_nullifiers_mono)
  also have "\<dots> \<subseteq> nullifier_set (run h ts (snd (step h t w)))"
    by (rule Cons.IH)
  finally show ?case by simp
qed

lemma cast_vote_success_records_nullifier:
  "step h (Cast_vote v c) w = (None, w1) \<Longrightarrow>
     pedersen_hash h [to_field v, nsk_app h (ballot_address h) (npk_m_hash h v)]
       \<in> nullifier_set w1"
  by (auto simp add: step_eqs split: if_splits)

lemma step_vote_ended_stays: "vote_ended (storage w) \<Longrightarrow> vote_ended (storage (snd (step h t w)))"
  by (cases t) (simp_all add: step_eqs)

lemma run_vote_ended_stays: "vote_ended (storage w) \<Longrightarrow> vote_ended (storage (run h ts w))"
  by (induction ts arbitrary: w) (simp_all add: step_vote_ended_stays)

lemma rising_edges_bound:
  "rising_edges (map (\<lambda>w. vote_ended (storage w)) (states h ts w))
     \<le> (if vote_ended (storage w) then 0 else 1)"
proof (induction ts arbitrary: w)
  case Nil
  show ?case by simp
next
  case (Cons t ts)
  let ?w' = "snd (step h t w)"
  obtain rest where rest: "states h ts ?w' = ?w' # rest"
    by (cases ts) simp_all
  have ih: "rising_edges (map (\<lambda>w. vote_ended (storage w)) (?w' # rest))
      \<le> (if vote_ended (storage ?w') then 0 else 1)"
    using Cons.IH [of ?w'] by (simp only: rest)
  show ?case
  proof (cases "vote_ended (storage w)")
    case True
    then have "vote_ended (storage ?w')"
      by (rule step_vote_ended_stays)
    with True ih show ?thesis
      by (simp add: rest)
  next
    case False
    with ih show ?thesis
      by (cases "vote_ended (storage ?w')") (simp_all add: rest)
  qed
qed

lemma step_slot_value_cases:
  "slot_value (storage (snd (step h t w))) c = slot_value (storage w) c
   \<or> slot_value (storage (snd (step h t w))) c = field_add (slot_value (storage w) c) (Suc 0)"
  by (cases t) (simp_all add: step_eqs slot_value_write slot_value_vote_ended)

lemma step_dom_mono: "dom (tally (storage w)) \<subseteq> dom (tally (storage (snd (step h t w))))"
  by (cases t) (auto simp add: step_eqs)

section \<open>Construction\<close>

text \<open>
  C7. For every admin identity, block number and prior storage, the constructor
  succeeds and afterwards \<open>get_admin\<close> returns the admin that was passed,
  \<open>get_vote_ended\<close> returns false and \<open>get_active_at_block\<close> returns the block
  number of the constructor's context.
\<close>

theorem constructor_then_getters:
  "fst (constructor ctx a s) = Inr ()
   \<and> fst (get_admin (snd (constructor ctx a s))) = Inr a
   \<and> fst (get_vote_ended (snd (constructor ctx a s))) = Inr False
   \<and> fst (get_active_at_block (snd (constructor ctx a s))) = Inr (block_number ctx)"
  by (simp add: constructor_eq get_admin_def get_vote_ended_def get_active_at_block_def
      admin_read_def vote_ended_read_def active_at_block_read_def)

section \<open>The admin gate\<close>

text \<open>
  C5. \<open>end_vote\<close> succeeds exactly when the caller is the stored admin. A caller that
  is not the admin gets \<open>Unauthorized\<close>, the storage is left as it was and
  \<open>get_vote_ended\<close> keeps returning its prior value; for the admin the call succeeds
  and writes \<open>vote_ended = true\<close>, changing nothing else.
\<close>

theorem end_vote_admin_gate:
  "(fst (end_vote ctx s) = Inr ()) = (admin s = msg_sender ctx)
   \<and> (admin s \<noteq> msg_sender ctx \<longrightarrow>
        end_vote ctx s = (Inl Unauthorized, s)
        \<and> fst (get_vote_ended (snd (end_vote ctx s))) = fst (get_vote_ended s))
   \<and> (admin s = msg_sender ctx \<longrightarrow>
        end_vote ctx s = (Inr (), s\<lparr>vote_ended := True\<rparr>)
        \<and> fst (get_vote_ended (snd (end_vote ctx s))) = Inr True)"
  by (simp add: end_vote_eq get_vote_ended_def vote_ended_read_def)

theorem end_vote_admin_gate_witness:
  "admin \<lparr>admin = AztecAddress 1, tally = Map.empty, vote_ended = False, active_at_block = 5\<rparr>
     \<noteq> msg_sender \<lparr>msg_sender = AztecAddress 2, this_address = AztecAddress 9, block_number = 6\<rparr>
   \<and> fst (end_vote \<lparr>msg_sender = AztecAddress 2, this_address = AztecAddress 9, block_number = 6\<rparr>
        \<lparr>admin = AztecAddress 1, tally = Map.empty, vote_ended = False, active_at_block = 5\<rparr>)
       = Inl Unauthorized
   \<and> vote_ended (snd (end_vote \<lparr>msg_sender = AztecAddress 2, this_address = AztecAddress 9, block_number = 6\<rparr>
        \<lparr>admin = AztecAddress 1, tally = Map.empty, vote_ended = False, active_at_block = 5\<rparr>))
       = False
   \<and> admin \<lparr>admin = AztecAddress 1, tally = Map.empty, vote_ended = False, active_at_block = 5\<rparr>
     = msg_sender \<lparr>msg_sender = AztecAddress 1, this_address = AztecAddress 9, block_number = 6\<rparr>
   \<and> fst (end_vote \<lparr>msg_sender = AztecAddress 1, this_address = AztecAddress 9, block_number = 6\<rparr>
        \<lparr>admin = AztecAddress 1, tally = Map.empty, vote_ended = False, active_at_block = 5\<rparr>)
       = Inr ()
   \<and> vote_ended (snd (end_vote \<lparr>msg_sender = AztecAddress 1, this_address = AztecAddress 9, block_number = 6\<rparr>
        \<lparr>admin = AztecAddress 1, tally = Map.empty, vote_ended = False, active_at_block = 5\<rparr>))
       = True"
  using
    end_vote_admin_gate [of "\<lparr>msg_sender = AztecAddress 2, this_address = AztecAddress 9, block_number = 6\<rparr>"
      "\<lparr>admin = AztecAddress 1, tally = Map.empty, vote_ended = False, active_at_block = 5\<rparr>"]
    end_vote_admin_gate [of "\<lparr>msg_sender = AztecAddress 1, this_address = AztecAddress 9, block_number = 6\<rparr>"
      "\<lparr>admin = AztecAddress 1, tally = Map.empty, vote_ended = False, active_at_block = 5\<rparr>"]
  by simp

text \<open>
  C9. The guard against ending a vote that has already ended is commented out in the
  source, so the model has none: when voting has already ended and the admin calls
  \<open>end_vote\<close> again, the call succeeds, writes \<open>vote_ended = true\<close> once more and
  leaves the storage exactly as it was.
\<close>

theorem end_vote_again_is_noop:
  "admin s = msg_sender ctx \<Longrightarrow> vote_ended s \<Longrightarrow> end_vote ctx s = (Inr (), s)"
  by (simp add: end_vote_eq)

theorem end_vote_again_is_noop_witness:
  "admin \<lparr>admin = AztecAddress 1, tally = Map.empty, vote_ended = True, active_at_block = 5\<rparr>
     = msg_sender \<lparr>msg_sender = AztecAddress 1, this_address = AztecAddress 9, block_number = 8\<rparr>
   \<and> vote_ended \<lparr>admin = AztecAddress 1, tally = Map.empty, vote_ended = True, active_at_block = 5\<rparr>
   \<and> end_vote \<lparr>msg_sender = AztecAddress 1, this_address = AztecAddress 9, block_number = 8\<rparr>
        \<lparr>admin = AztecAddress 1, tally = Map.empty, vote_ended = True, active_at_block = 5\<rparr>
       = (Inr (), \<lparr>admin = AztecAddress 1, tally = Map.empty, vote_ended = True, active_at_block = 5\<rparr>)"
proof -
  have a: "admin \<lparr>admin = AztecAddress 1, tally = Map.empty, vote_ended = True, active_at_block = 5\<rparr>
     = msg_sender \<lparr>msg_sender = AztecAddress 1, this_address = AztecAddress 9, block_number = 8\<rparr>"
    by simp
  have b: "vote_ended \<lparr>admin = AztecAddress 1, tally = Map.empty, vote_ended = True, active_at_block = 5\<rparr>"
    by simp
  show ?thesis using a b end_vote_again_is_noop [OF a b] by simp
qed

section \<open>The view accessors\<close>

text \<open>
  C8. The four view accessors return a value and leave the storage exactly as it was.
  \<open>get_vote\<close> on a candidate whose slot was never written returns 0 and does not fail,
  and a second \<open>get_vote\<close> for the same candidate right after the first returns the
  same value.
\<close>

theorem views_are_pure_reads:
  "snd (get_vote c s) = s \<and> snd (get_vote_ended s) = s
   \<and> snd (get_admin s) = s \<and> snd (get_active_at_block s) = s
   \<and> fst (get_vote c s) \<noteq> Inl e
   \<and> (tally s c = None \<longrightarrow> fst (get_vote c s) = Inr 0)
   \<and> fst (get_vote c (snd (get_vote c s))) = fst (get_vote c s)"
  by (simp add: get_vote_def get_vote_ended_def get_admin_def get_active_at_block_def
      tally_at_read_def vote_ended_read_def admin_read_def active_at_block_read_def
      slot_value_def)

theorem views_are_pure_reads_witness:
  "tally \<lparr>admin = AztecAddress 1, tally = Map.empty(7 \<mapsto> 2), vote_ended = False, active_at_block = 5\<rparr> 9
     = None
   \<and> fst (get_vote 9
        \<lparr>admin = AztecAddress 1, tally = Map.empty(7 \<mapsto> 2), vote_ended = False, active_at_block = 5\<rparr>)
       = Inr 0"
proof -
  have a: "tally \<lparr>admin = AztecAddress 1, tally = Map.empty(7 \<mapsto> 2), vote_ended = False,
      active_at_block = 5\<rparr> 9 = None"
    by simp
  show ?thesis
    using a views_are_pure_reads [of 9
        "\<lparr>admin = AztecAddress 1, tally = Map.empty(7 \<mapsto> 2), vote_ended = False, active_at_block = 5\<rparr>"]
    by simp
qed

section \<open>The tally mutator\<close>

lemma field_add_one_below_max: "v < field_modulus - 1 \<Longrightarrow> field_add v (Suc 0) = Suc v"
  by (simp add: field_add_def)

text \<open>
  C4, as claimed, fails where the \<open>Field\<close> addition wraps. With the tally of
  candidate 3 at the largest \<open>Field\<close> value, a call of \<open>add_to_tally_public\<close> for
  candidate 3 while voting is open succeeds, and \<open>get_vote 3\<close>, which returned that
  largest value before, returns 0 afterwards and not the former value plus one.
\<close>

theorem vote_at_field_max_counterexample:
  "fst (add_to_tally_public
      \<lparr>msg_sender = AztecAddress 9, this_address = AztecAddress 9, block_number = 6\<rparr> 3
      \<lparr>admin = AztecAddress 1,
       tally = Map.empty(3 \<mapsto> 21888242871839275222246405745257275088548364400416034343698204186575808495616),
       vote_ended = False, active_at_block = 5\<rparr>) = Inr ()
   \<and> fst (get_vote 3
      \<lparr>admin = AztecAddress 1,
       tally = Map.empty(3 \<mapsto> 21888242871839275222246405745257275088548364400416034343698204186575808495616),
       vote_ended = False, active_at_block = 5\<rparr>)
     = Inr 21888242871839275222246405745257275088548364400416034343698204186575808495616
   \<and> fst (get_vote 3 (snd (add_to_tally_public
      \<lparr>msg_sender = AztecAddress 9, this_address = AztecAddress 9, block_number = 6\<rparr> 3
      \<lparr>admin = AztecAddress 1,
       tally = Map.empty(3 \<mapsto> 21888242871839275222246405745257275088548364400416034343698204186575808495616),
       vote_ended = False, active_at_block = 5\<rparr>))) = Inr 0
   \<and> fst (get_vote 3 (snd (add_to_tally_public
      \<lparr>msg_sender = AztecAddress 9, this_address = AztecAddress 9, block_number = 6\<rparr> 3
      \<lparr>admin = AztecAddress 1,
       tally = Map.empty(3 \<mapsto> 21888242871839275222246405745257275088548364400416034343698204186575808495616),
       vote_ended = False, active_at_block = 5\<rparr>)))
     \<noteq> Inr (21888242871839275222246405745257275088548364400416034343698204186575808495616 + 1)"
  by (simp add: add_to_tally_public_eq get_vote_def tally_at_read_def slot_value_def
      field_add_def field_modulus_def)

text \<open>
  C4, amended. When \<open>add_to_tally_public\<close> succeeds for candidate \<open>c\<close>, voting was
  open; if the count of \<open>c\<close> was below the largest \<open>Field\<close> value, \<open>get_vote c\<close>
  afterwards returns the former count plus exactly one, and a slot that was never
  written counts as 0 and reads 1 afterwards. In every case the new count is the
  \<open>Field\<close> sum of the former count and one, and every other candidate's slot,
  \<open>admin\<close>, \<open>vote_ended\<close> and \<open>active_at_block\<close> are as they were.
\<close>

theorem add_to_tally_public_counts_one:
  "add_to_tally_public ctx c s = (Inr (), s') \<Longrightarrow>
     vote_ended s = False
     \<and> fst (get_vote c s) = Inr (slot_value s c)
     \<and> (slot_value s c < field_modulus - 1 \<longrightarrow> fst (get_vote c s') = Inr (slot_value s c + 1))
     \<and> (tally s c = None \<longrightarrow> fst (get_vote c s') = Inr 1)
     \<and> fst (get_vote c s') = Inr (field_add (slot_value s c) 1)
     \<and> (\<forall>c'. c' \<noteq> c \<longrightarrow> tally s' c' = tally s c' \<and> get_vote c' s' = (Inr (slot_value s c'), s'))
     \<and> admin s' = admin s \<and> vote_ended s' = vote_ended s
     \<and> active_at_block s' = active_at_block s"
  by (auto simp add: add_to_tally_public_eq get_vote_def tally_at_read_def slot_value_def
      field_add_one_below_max field_add_zero_one split: if_splits)

theorem add_to_tally_public_counts_one_witness:
  "add_to_tally_public \<lparr>msg_sender = AztecAddress 9, this_address = AztecAddress 9, block_number = 6\<rparr> 7
      \<lparr>admin = AztecAddress 1, tally = Map.empty(7 \<mapsto> 2), vote_ended = False, active_at_block = 5\<rparr>
     = (Inr (), \<lparr>admin = AztecAddress 1, tally = Map.empty(7 \<mapsto> 3), vote_ended = False,
                  active_at_block = 5\<rparr>)
   \<and> slot_value \<lparr>admin = AztecAddress 1, tally = Map.empty(7 \<mapsto> 2), vote_ended = False,
                  active_at_block = 5\<rparr> 7 < field_modulus - 1
   \<and> fst (get_vote 7 \<lparr>admin = AztecAddress 1, tally = Map.empty(7 \<mapsto> 3), vote_ended = False,
                  active_at_block = 5\<rparr>) = Inr 3
   \<and> fst (get_vote 8 \<lparr>admin = AztecAddress 1, tally = Map.empty(7 \<mapsto> 3), vote_ended = False,
                  active_at_block = 5\<rparr>) = Inr 0
   \<and> add_to_tally_public \<lparr>msg_sender = AztecAddress 9, this_address = AztecAddress 9, block_number = 6\<rparr> 8
      \<lparr>admin = AztecAddress 1, tally = Map.empty(7 \<mapsto> 2), vote_ended = False, active_at_block = 5\<rparr>
     = (Inr (), \<lparr>admin = AztecAddress 1, tally = Map.empty(7 \<mapsto> 2, 8 \<mapsto> 1), vote_ended = False,
                  active_at_block = 5\<rparr>)
   \<and> tally \<lparr>admin = AztecAddress 1, tally = Map.empty(7 \<mapsto> 2), vote_ended = False,
                  active_at_block = 5\<rparr> 8 = None
   \<and> fst (get_vote 8 \<lparr>admin = AztecAddress 1, tally = Map.empty(7 \<mapsto> 2, 8 \<mapsto> 1),
                  vote_ended = False, active_at_block = 5\<rparr>) = Inr 1"
proof -
  have a: "add_to_tally_public
      \<lparr>msg_sender = AztecAddress 9, this_address = AztecAddress 9, block_number = 6\<rparr> 7
      \<lparr>admin = AztecAddress 1, tally = Map.empty(7 \<mapsto> 2), vote_ended = False, active_at_block = 5\<rparr>
     = (Inr (), \<lparr>admin = AztecAddress 1, tally = Map.empty(7 \<mapsto> 3), vote_ended = False,
                  active_at_block = 5\<rparr>)"
    by (simp add: add_to_tally_public_eq slot_value_def field_add_def field_modulus_def)
  have b: "slot_value \<lparr>admin = AztecAddress 1, tally = Map.empty(7 \<mapsto> 2), vote_ended = False,
      active_at_block = 5\<rparr> 7 = 2"
    "slot_value \<lparr>admin = AztecAddress 1, tally = Map.empty(7 \<mapsto> 2), vote_ended = False,
      active_at_block = 5\<rparr> 8 = 0"
    by (simp_all add: slot_value_def)
  have c: "(2::nat) < field_modulus - 1"
    by (simp add: field_modulus_def)
  have d: "add_to_tally_public
      \<lparr>msg_sender = AztecAddress 9, this_address = AztecAddress 9, block_number = 6\<rparr> 8
      \<lparr>admin = AztecAddress 1, tally = Map.empty(7 \<mapsto> 2), vote_ended = False, active_at_block = 5\<rparr>
     = (Inr (), \<lparr>admin = AztecAddress 1, tally = Map.empty(7 \<mapsto> 2, 8 \<mapsto> 1), vote_ended = False,
                  active_at_block = 5\<rparr>)"
    by (simp add: add_to_tally_public_eq slot_value_def field_add_def field_modulus_def)
  have e: "tally \<lparr>admin = AztecAddress 1, tally = Map.empty(7 \<mapsto> 2), vote_ended = False,
      active_at_block = 5\<rparr> 8 = None"
    by simp
  show ?thesis
    using a b c d e add_to_tally_public_counts_one [OF a] add_to_tally_public_counts_one [OF d]
    by simp
qed

section \<open>The vote executor\<close>

text \<open>
  C2. Two runs of \<open>cast_vote\<close> with the same caller in the same contract push the
  same nullifier, whatever the two candidates are and whatever else the two private
  contexts hold: each run appends exactly one nullifier, computed from
  \<open>msg_sender\<close>, its keys and \<open>this_address\<close> only.
\<close>

theorem cast_vote_nullifier_deterministic:
  "msg_sender ctx1 = msg_sender ctx2 \<Longrightarrow> this_address ctx1 = this_address ctx2 \<Longrightarrow>
     \<exists>n. new_nullifiers (cast_vote orc ctx1 c1) = new_nullifiers ctx1 @ [n]
       \<and> new_nullifiers (cast_vote orc ctx2 c2) = new_nullifiers ctx2 @ [n]"
  by (simp add: cast_vote_def request_nsk_app_def push_nullifier_def enqueue_def Let_def)

theorem cast_vote_nullifier_deterministic_witness:
  "msg_sender \<lparr>msg_sender = AztecAddress 3, this_address = AztecAddress 9,
        new_nullifiers = [], public_call_requests = []\<rparr>
     = msg_sender \<lparr>msg_sender = AztecAddress 3, this_address = AztecAddress 9,
        new_nullifiers = [5], public_call_requests = []\<rparr>
   \<and> this_address \<lparr>msg_sender = AztecAddress 3, this_address = AztecAddress 9,
        new_nullifiers = [], public_call_requests = []\<rparr>
     = this_address \<lparr>msg_sender = AztecAddress 3, this_address = AztecAddress 9,
        new_nullifiers = [5], public_call_requests = []\<rparr>
   \<and> new_nullifiers (cast_vote example_host
        \<lparr>msg_sender = AztecAddress 3, this_address = AztecAddress 9,
         new_nullifiers = [], public_call_requests = []\<rparr> 7) = [16]
   \<and> new_nullifiers (cast_vote example_host
        \<lparr>msg_sender = AztecAddress 3, this_address = AztecAddress 9,
         new_nullifiers = [5], public_call_requests = []\<rparr> 8) = [5, 16]"
proof -
  have a: "msg_sender \<lparr>msg_sender = AztecAddress 3, this_address = AztecAddress 9,
        new_nullifiers = [], public_call_requests = []\<rparr>
     = msg_sender \<lparr>msg_sender = AztecAddress 3, this_address = AztecAddress 9,
        new_nullifiers = [5], public_call_requests = []\<rparr>"
    by simp
  have b: "this_address \<lparr>msg_sender = AztecAddress 3, this_address = AztecAddress 9,
        new_nullifiers = [], public_call_requests = []\<rparr>
     = this_address \<lparr>msg_sender = AztecAddress 3, this_address = AztecAddress 9,
        new_nullifiers = [5], public_call_requests = []\<rparr>"
    by simp
  have c: "new_nullifiers (cast_vote example_host
        \<lparr>msg_sender = AztecAddress 3, this_address = AztecAddress 9,
         new_nullifiers = [], public_call_requests = []\<rparr> 7) = [16]"
    by (simp add: cast_vote_def request_nsk_app_def push_nullifier_def enqueue_def Let_def
        example_host_def)
  show ?thesis
    using a b c cast_vote_nullifier_deterministic [OF a b, of example_host 7 8]
    by auto
qed

section \<open>Atomicity of a vote\<close>

text \<open>
  C1. For every voter and candidate, when the staged public call of \<open>cast_vote\<close>
  fails, the transaction fails and the ledger after it equals the ledger before it: the
  nullifier of the private phase is not in the nullifier set, the tally map and every
  other storage slot are unchanged. In particular, when \<open>vote_ended\<close> is true and the
  voter's nullifier is fresh, the transaction fails with \<open>VotingEnded\<close> and changes
  nothing; and every failed \<open>cast_vote\<close> transaction leaves the ledger as it was.
\<close>

theorem failed_cast_vote_rolls_back:
  "(fst (run_requests h (public_call_requests (cast_vote h (private_ctx h v) c)) (storage w)) = Inl e
      \<longrightarrow> fst (step h (Cast_vote v c) w) \<noteq> None \<and> snd (step h (Cast_vote v c) w) = w)
   \<and> (vote_ended (storage w)
      \<longrightarrow> set (new_nullifiers (cast_vote h (private_ctx h v) c)) \<inter> nullifier_set w = {}
      \<longrightarrow> step h (Cast_vote v c) w = (Some VotingEnded, w))
   \<and> (fst (step h (Cast_vote v c) w) \<noteq> None \<longrightarrow> snd (step h (Cast_vote v c) w) = w)"
  by (simp add: step_eqs cast_vote_private_ctx run_request_def pub_bind_def
      add_to_tally_public_eq)

theorem failed_cast_vote_rolls_back_witness:
  "vote_ended (storage \<lparr>nullifier_set = {}, storage = \<lparr>admin = AztecAddress 1,
        tally = Map.empty(7 \<mapsto> 2), vote_ended = True, active_at_block = 5\<rparr>\<rparr>)
   \<and> set (new_nullifiers (cast_vote example_host (private_ctx example_host (AztecAddress 3)) 7))
        \<inter> nullifier_set \<lparr>nullifier_set = {}, storage = \<lparr>admin = AztecAddress 1,
          tally = Map.empty(7 \<mapsto> 2), vote_ended = True, active_at_block = 5\<rparr>\<rparr> = {}
   \<and> fst (run_requests example_host
        (public_call_requests (cast_vote example_host (private_ctx example_host (AztecAddress 3)) 7))
        (storage \<lparr>nullifier_set = {}, storage = \<lparr>admin = AztecAddress 1,
          tally = Map.empty(7 \<mapsto> 2), vote_ended = True, active_at_block = 5\<rparr>\<rparr>))
       = Inl VotingEnded
   \<and> step example_host (Cast_vote (AztecAddress 3) 7)
        \<lparr>nullifier_set = {}, storage = \<lparr>admin = AztecAddress 1,
          tally = Map.empty(7 \<mapsto> 2), vote_ended = True, active_at_block = 5\<rparr>\<rparr>
       = (Some VotingEnded, \<lparr>nullifier_set = {}, storage = \<lparr>admin = AztecAddress 1,
          tally = Map.empty(7 \<mapsto> 2), vote_ended = True, active_at_block = 5\<rparr>\<rparr>)"
proof -
  have a: "vote_ended (storage \<lparr>nullifier_set = {}, storage = \<lparr>admin = AztecAddress 1,
        tally = Map.empty(7 \<mapsto> 2), vote_ended = True, active_at_block = 5\<rparr>\<rparr>)"
    by simp
  have b: "set (new_nullifiers (cast_vote example_host (private_ctx example_host (AztecAddress 3)) 7))
        \<inter> nullifier_set \<lparr>nullifier_set = {}, storage = \<lparr>admin = AztecAddress 1,
          tally = Map.empty(7 \<mapsto> 2), vote_ended = True, active_at_block = 5\<rparr>\<rparr> = {}"
    by simp
  have c: "fst (run_requests example_host
        (public_call_requests (cast_vote example_host (private_ctx example_host (AztecAddress 3)) 7))
        (storage \<lparr>nullifier_set = {}, storage = \<lparr>admin = AztecAddress 1,
          tally = Map.empty(7 \<mapsto> 2), vote_ended = True, active_at_block = 5\<rparr>\<rparr>))
       = Inl VotingEnded"
    by (simp add: cast_vote_private_ctx run_request_def pub_bind_def add_to_tally_public_eq)
  show ?thesis
    using a b c failed_cast_vote_rolls_back [of example_host "AztecAddress 3" 7
        "\<lparr>nullifier_set = {}, storage = \<lparr>admin = AztecAddress 1,
          tally = Map.empty(7 \<mapsto> 2), vote_ended = True, active_at_block = 5\<rparr>\<rparr>" VotingEnded]
    by simp
qed

text \<open>
  C3. After a voter has cast a vote successfully, and after any further transactions,
  every later \<open>cast_vote\<close> of that voter, for the same or another candidate, fails
  with \<open>DuplicateVote\<close> and leaves the nullifier set and the storage, hence every
  \<open>get_vote\<close> value, exactly as they were.
\<close>

theorem second_vote_is_duplicate:
  "step h (Cast_vote v c1) w = (None, w1) \<Longrightarrow>
     step h (Cast_vote v c2) (run h ts w1) = (Some DuplicateVote, run h ts w1)"
proof -
  assume "step h (Cast_vote v c1) w = (None, w1)"
  then have "pedersen_hash h [to_field v, nsk_app h (ballot_address h) (npk_m_hash h v)]
      \<in> nullifier_set w1"
    by (rule cast_vote_success_records_nullifier)
  then have "pedersen_hash h [to_field v, nsk_app h (ballot_address h) (npk_m_hash h v)]
      \<in> nullifier_set (run h ts w1)"
    using run_nullifiers_mono [of w1 h ts] by blast
  then show ?thesis
    by (simp add: step_eqs)
qed

theorem second_vote_is_duplicate_witness:
  "step example_host (Cast_vote (AztecAddress 3) 7)
      \<lparr>nullifier_set = {}, storage = \<lparr>admin = AztecAddress 1, tally = Map.empty,
         vote_ended = False, active_at_block = 5\<rparr>\<rparr>
     = (None, \<lparr>nullifier_set = {16}, storage = \<lparr>admin = AztecAddress 1,
         tally = Map.empty(7 \<mapsto> 1), vote_ended = False, active_at_block = 5\<rparr>\<rparr>)
   \<and> run example_host [Cast_vote (AztecAddress 4) 7, Get_vote 7]
        \<lparr>nullifier_set = {16}, storage = \<lparr>admin = AztecAddress 1,
         tally = Map.empty(7 \<mapsto> 1), vote_ended = False, active_at_block = 5\<rparr>\<rparr>
     = \<lparr>nullifier_set = {18, 16}, storage = \<lparr>admin = AztecAddress 1,
         tally = Map.empty(7 \<mapsto> 2), vote_ended = False, active_at_block = 5\<rparr>\<rparr>
   \<and> step example_host (Cast_vote (AztecAddress 3) 8)
        \<lparr>nullifier_set = {18, 16}, storage = \<lparr>admin = AztecAddress 1,
         tally = Map.empty(7 \<mapsto> 2), vote_ended = False, active_at_block = 5\<rparr>\<rparr>
     = (Some DuplicateVote, \<lparr>nullifier_set = {18, 16}, storage = \<lparr>admin = AztecAddress 1,
         tally = Map.empty(7 \<mapsto> 2), vote_ended = False, active_at_block = 5\<rparr>\<rparr>)"
proof -
  have a: "step example_host (Cast_vote (AztecAddress 3) 7)
      \<lparr>nullifier_set = {}, storage = \<lparr>admin = AztecAddress 1, tally = Map.empty,
         vote_ended = False, active_at_block = 5\<rparr>\<rparr>
     = (None, \<lparr>nullifier_set = {16}, storage = \<lparr>admin = AztecAddress 1,
         tally = Map.empty(7 \<mapsto> 1), vote_ended = False, active_at_block = 5\<rparr>\<rparr>)"
    by (simp add: step_eqs example_host_def slot_value_def field_add_def field_modulus_def)
  have b: "run example_host [Cast_vote (AztecAddress 4) 7, Get_vote 7]
        \<lparr>nullifier_set = {16}, storage = \<lparr>admin = AztecAddress 1,
         tally = Map.empty(7 \<mapsto> 1), vote_ended = False, active_at_block = 5\<rparr>\<rparr>
     = \<lparr>nullifier_set = {18, 16}, storage = \<lparr>admin = AztecAddress 1,
         tally = Map.empty(7 \<mapsto> 2), vote_ended = False, active_at_block = 5\<rparr>\<rparr>"
    by (simp add: step_eqs example_host_def slot_value_def field_add_def field_modulus_def
        numeral_2_eq_2)
  show ?thesis
    using a b second_vote_is_duplicate [OF a, of 8 "[Cast_vote (AztecAddress 4) 7, Get_vote 7]"]
    by simp
qed

section \<open>The life cycle of the ballot\<close>

text \<open>
  C6. The deployed ballot starts with \<open>vote_ended = false\<close>. From a ledger where
  \<open>vote_ended\<close> is true, every sequence of transactions ends in a ledger where it is
  still true, and along every execution that starts at deployment the flag goes from
  false to true at most once.
\<close>

theorem vote_ended_is_terminal:
  "vote_ended (storage (deploy h d a ns)) = False
   \<and> (vote_ended (storage w) \<longrightarrow> vote_ended (storage (run h ts w)))
   \<and> rising_edges (map (\<lambda>w. vote_ended (storage w)) (states h ts (deploy h d a ns))) \<le> 1"
proof -
  have "vote_ended (storage (deploy h d a ns)) = False"
    by (simp add: deploy_def constructor_eq)
  moreover have "vote_ended (storage w) \<longrightarrow> vote_ended (storage (run h ts w))"
    by (simp add: run_vote_ended_stays)
  moreover have "rising_edges (map (\<lambda>w. vote_ended (storage w)) (states h ts (deploy h d a ns))) \<le> 1"
    using rising_edges_bound [of h ts "deploy h d a ns"] by (simp split: if_splits)
  ultimately show ?thesis by blast
qed

theorem vote_ended_is_terminal_witness:
  "vote_ended (storage \<lparr>nullifier_set = {}, storage = \<lparr>admin = AztecAddress 1,
        tally = Map.empty, vote_ended = True, active_at_block = 5\<rparr>\<rparr>)
   \<and> vote_ended (storage (run example_host
        [End_vote (AztecAddress 1), Cast_vote (AztecAddress 3) 7, Get_vote_ended]
        \<lparr>nullifier_set = {}, storage = \<lparr>admin = AztecAddress 1,
          tally = Map.empty, vote_ended = True, active_at_block = 5\<rparr>\<rparr>))
   \<and> map (\<lambda>w. vote_ended (storage w)) (states example_host
        [Cast_vote (AztecAddress 3) 7, End_vote (AztecAddress 1), End_vote (AztecAddress 1)]
        (deploy example_host (AztecAddress 2) (AztecAddress 1) {}))
       = [False, False, True, True]"
proof -
  have a: "vote_ended (storage \<lparr>nullifier_set = {}, storage = \<lparr>admin = AztecAddress 1,
        tally = Map.empty, vote_ended = True, active_at_block = 5\<rparr>\<rparr>)"
    by simp
  have b: "map (\<lambda>w. vote_ended (storage w)) (states example_host
        [Cast_vote (AztecAddress 3) 7, End_vote (AztecAddress 1), End_vote (AztecAddress 1)]
        (deploy example_host (AztecAddress 2) (AztecAddress 1) {}))
       = [False, False, True, True]"
    by (simp add: step_eqs deploy_def constructor_eq example_host_def)
  show ?thesis
    using a b vote_ended_is_terminal [of example_host "AztecAddress 2" "AztecAddress 1" "{}"
        "\<lparr>nullifier_set = {}, storage = \<lparr>admin = AztecAddress 1,
          tally = Map.empty, vote_ended = True, active_at_block = 5\<rparr>\<rparr>"
        "[End_vote (AztecAddress 1), Cast_vote (AztecAddress 3) 7, Get_vote_ended]"]
    by simp
qed

section \<open>Monotonicity of the tally\<close>

text \<open>
  C10, as claimed, fails where the \<open>Field\<close> addition wraps. With the tally of
  candidate 7 at the largest \<open>Field\<close> value, a call of \<open>add_to_tally_public\<close> for
  candidate 7 while voting is open succeeds and writes 0: the tally after the operation
  is not greater than or equal to the tally before it.
\<close>

theorem tally_wraps_counterexample:
  "add_to_tally_public \<lparr>msg_sender = AztecAddress 9, this_address = AztecAddress 9, block_number = 6\<rparr> 7
      \<lparr>admin = AztecAddress 1,
       tally = Map.empty(7 \<mapsto> 21888242871839275222246405745257275088548364400416034343698204186575808495616),
       vote_ended = False, active_at_block = 5\<rparr>
     = (Inr (), \<lparr>admin = AztecAddress 1, tally = Map.empty(7 \<mapsto> 0), vote_ended = False,
                  active_at_block = 5\<rparr>)
   \<and> \<not> slot_value \<lparr>admin = AztecAddress 1,
       tally = Map.empty(7 \<mapsto> 21888242871839275222246405745257275088548364400416034343698204186575808495616),
       vote_ended = False, active_at_block = 5\<rparr> 7
      \<le> slot_value (snd (add_to_tally_public
          \<lparr>msg_sender = AztecAddress 9, this_address = AztecAddress 9, block_number = 6\<rparr> 7
          \<lparr>admin = AztecAddress 1,
           tally = Map.empty(7 \<mapsto> 21888242871839275222246405745257275088548364400416034343698204186575808495616),
           vote_ended = False, active_at_block = 5\<rparr>)) 7"
  by (simp add: add_to_tally_public_eq slot_value_def field_add_def field_modulus_def)

text \<open>
  C10, amended. For every candidate \<open>c\<close> whose tally is below the largest \<open>Field\<close>
  value, and every transaction on the deployed ballot (\<open>cast_vote\<close> with its staged
  \<open>add_to_tally_public\<close>, a direct call of \<open>add_to_tally_public\<close>, \<open>end_vote\<close>,
  and every view accessor), whether it commits or fails, the tally of \<open>c\<close> afterwards is
  greater than or equal to its value before. No transaction removes a tally entry, and
  the constructor leaves the tally map as it is.
\<close>

theorem tally_never_decreases_below_wrap:
  "(slot_value (storage w) c < field_modulus - 1
      \<longrightarrow> slot_value (storage w) c \<le> slot_value (storage (snd (step h t w))) c)
   \<and> dom (tally (storage w)) \<subseteq> dom (tally (storage (snd (step h t w))))
   \<and> tally (snd (constructor ctx a s)) = tally s"
proof -
  have "tally (snd (constructor ctx a s)) = tally s"
    by (simp add: constructor_eq)
  moreover have "dom (tally (storage w)) \<subseteq> dom (tally (storage (snd (step h t w))))"
    by (rule step_dom_mono)
  moreover have "slot_value (storage w) c \<le> slot_value (storage (snd (step h t w))) c"
    if below: "slot_value (storage w) c < field_modulus - 1"
  proof -
    from below have "Suc (slot_value (storage w) c) < field_modulus"
      by arith
    then have "field_add (slot_value (storage w) c) (Suc 0) = Suc (slot_value (storage w) c)"
      by (rule field_add_one_below_modulus)
    with step_slot_value_cases [of h t w c] show ?thesis
      by auto
  qed
  ultimately show ?thesis by blast
qed

theorem tally_never_decreases_below_wrap_witness:
  "slot_value (storage \<lparr>nullifier_set = {}, storage = \<lparr>admin = AztecAddress 1,
        tally = Map.empty(7 \<mapsto> 2), vote_ended = False, active_at_block = 5\<rparr>\<rparr>) 7
     < field_modulus - 1
   \<and> slot_value (storage \<lparr>nullifier_set = {}, storage = \<lparr>admin = AztecAddress 1,
        tally = Map.empty(7 \<mapsto> 2), vote_ended = False, active_at_block = 5\<rparr>\<rparr>) 7
     \<le> slot_value (storage (snd (step example_host (Cast_vote (AztecAddress 3) 7)
          \<lparr>nullifier_set = {}, storage = \<lparr>admin = AztecAddress 1,
            tally = Map.empty(7 \<mapsto> 2), vote_ended = False, active_at_block = 5\<rparr>\<rparr>))) 7
   \<and> slot_value (storage (snd (step example_host (Cast_vote (AztecAddress 3) 7)
          \<lparr>nullifier_set = {}, storage = \<lparr>admin = AztecAddress 1,
            tally = Map.empty(7 \<mapsto> 2), vote_ended = False, active_at_block = 5\<rparr>\<rparr>))) 7 = 3"
proof -
  have a: "slot_value (storage \<lparr>nullifier_set = {}, storage = \<lparr>admin = AztecAddress 1,
        tally = Map.empty(7 \<mapsto> 2), vote_ended = False, active_at_block = 5\<rparr>\<rparr>) 7
     < field_modulus - 1"
    by (simp add: slot_value_def field_modulus_def)
  have b: "slot_value (storage (snd (step example_host (Cast_vote (AztecAddress 3) 7)
          \<lparr>nullifier_set = {}, storage = \<lparr>admin = AztecAddress 1,
            tally = Map.empty(7 \<mapsto> 2), vote_ended = False, active_at_block = 5\<rparr>\<rparr>))) 7 = 3"
    by (simp add: step_eqs example_host_def slot_value_def field_add_def field_modulus_def)
  show ?thesis
    using a b tally_never_decreases_below_wrap [of
        "\<lparr>nullifier_set = {}, storage = \<lparr>admin = AztecAddress 1,
            tally = Map.empty(7 \<mapsto> 2), vote_ended = False, active_at_block = 5\<rparr>\<rparr>"
        7 example_host "Cast_vote (AztecAddress 3) 7"]
    by simp
qed

end
